theory Spec2Isabelle
  imports Main "HOL-Library.Word"
begin

section \<open>lib/netutil/tls.go: server TLS configuration\<close>

text \<open>
  The file holds two functions: \<^verbatim>\<open>collectCipherSuites\<close>, which turns cipher-suite names
  into identifiers, and \<^verbatim>\<open>GetServerTLSConfig\<close>, which builds a \<^verbatim>\<open>tls.Config\<close> whose
  \<^verbatim>\<open>GetCertificate\<close> callback reloads the certificate from disk.

  Go functions return a value together with an error; the model keeps both components,
  \<open>None\<close> being Go's \<^verbatim>\<open>nil\<close>. A nil slice is the empty list.
\<close>

subsection \<open>Data\<close>

type_synonym bytes = string
type_synonym addr = nat

text \<open>
  Errors. The Go code builds messages with \<^verbatim>\<open>fmt.Errorf\<close>; each format string is one
  constructor that keeps the arguments of the format.
  \<^item> \<open>PlatformError\<close>: an error of a library the file calls (I/O, parsing);
  \<^item> \<open>CannotLoadTLSCert\<close>: \<^verbatim>\<open>"cannot load TLS cert from certFile=%q, keyFile=%q: %w"\<close>;
  \<^item> \<open>UnsupportedCipherSuite\<close>: \<^verbatim>\<open>"got unsupported cipher suite name: %s"\<close>;
  \<^item> \<open>CannotUseCipherSuites\<close>: \<^verbatim>\<open>"cannot use TLS cipher suites from tlsCipherSuites=%q: %w"\<close>;
  \<^item> \<open>CannotReadCAFile\<close>: \<^verbatim>\<open>"cannot read tlsCAFile=%q: %w"\<close>;
  \<^item> \<open>CannotParseCAFile\<close>: \<^verbatim>\<open>"cannot parse data for tlsCAFile=%q: %s"\<close>.
\<close>

datatype error =
    PlatformError string
  | CannotLoadTLSCert string string error
  | UnsupportedCipherSuite string
  | CannotUseCipherSuites "string list" error
  | CannotReadCAFile string error
  | CannotParseCAFile string bytes

text \<open>\<^verbatim>\<open>tls.Certificate\<close>: the certificate chain and the private key.\<close>

record tls_Certificate =
  Certificate :: "bytes list"
  PrivateKey :: bytes

text \<open>The zero value \<^verbatim>\<open>tls.Certificate{}\<close>.\<close>

definition zero_Certificate :: tls_Certificate where
  "zero_Certificate = \<lparr>Certificate = [], PrivateKey = []\<rparr>"

text \<open>\<^verbatim>\<open>tls.CipherSuite\<close>: the fields the file reads.\<close>

record tls_CipherSuite =
  Name :: string
  ID :: "16 word"

datatype tls_ClientAuthType =
    NoClientCert
  | RequestClientCert
  | RequireAnyClientCert
  | VerifyClientCertIfGiven
  | RequireAndVerifyClientCert

text \<open>
  The libraries the file calls are parameters of the model, one field per function:
  \<^item> \<open>tls_LoadX509KeyPair\<close>: \<^verbatim>\<open>tls.LoadX509KeyPair(certFile, keyFile)\<close>, which returns a
    certificate and an error (Go's library returns \<^verbatim>\<open>Certificate{}\<close> with every error);
  \<^item> \<open>tls_CipherSuites\<close>: \<^verbatim>\<open>tls.CipherSuites()\<close>;
  \<^item> \<open>strings_ToLower\<close>: \<^verbatim>\<open>strings.ToLower\<close>;
  \<^item> \<open>fs_ReadFileOrHTTP\<close>: \<^verbatim>\<open>fs.ReadFileOrHTTP(path)\<close>;
  \<^item> \<open>AppendCertsFromPEM\<close>: \<^verbatim>\<open>(*x509.CertPool).AppendCertsFromPEM\<close>, from a pool and PEM
    data to the grown pool and whether a certificate was parsed.
  A pool is the list of its certificates; \<^verbatim>\<open>x509.NewCertPool()\<close> is the empty list.
\<close>

record platform =
  tls_LoadX509KeyPair :: "string \<Rightarrow> string \<Rightarrow> tls_Certificate \<times> error option"
  tls_CipherSuites :: "tls_CipherSuite list"
  strings_ToLower :: "string \<Rightarrow> string"
  fs_ReadFileOrHTTP :: "string \<Rightarrow> bytes \<times> error option"
  AppendCertsFromPEM :: "bytes list \<Rightarrow> bytes \<Rightarrow> bytes list \<times> bool"

subsection \<open>collectCipherSuites\<close>

text \<open>
  The first loop fills \<^verbatim>\<open>supportedCipherSuitesMap\<close>: every supported suite is stored under
  its lower-cased name, a later suite overwriting an earlier one with the same key.
\<close>

fun supportedCipherSuitesMap ::
  "(string \<Rightarrow> string) \<Rightarrow> tls_CipherSuite list \<Rightarrow> (string \<rightharpoonup> 16 word) \<Rightarrow> (string \<rightharpoonup> 16 word)" where
  "supportedCipherSuitesMap lower [] m = m"
| "supportedCipherSuitesMap lower (scf # rest) m =
     supportedCipherSuitesMap lower rest (m(lower (Name scf) \<mapsto> ID scf))"

text \<open>
  The second loop walks \<^verbatim>\<open>definedCipherSuites\<close> with the identifiers appended so far; an
  unknown name returns \<^verbatim>\<open>nil\<close> and the error at once.
\<close>

fun collect_loop ::
  "(string \<Rightarrow> string) \<Rightarrow> (string \<rightharpoonup> 16 word) \<Rightarrow> string list \<Rightarrow> 16 word list
     \<Rightarrow> 16 word list \<times> error option" where
  "collect_loop lower m [] cipherSuites = (cipherSuites, None)"
| "collect_loop lower m (gotSuite # rest) cipherSuites =
     (case m (lower gotSuite) of
        None \<Rightarrow> ([], Some (UnsupportedCipherSuite gotSuite))
      | Some i \<Rightarrow> collect_loop lower m rest (cipherSuites @ [i]))"

definition collectCipherSuites :: "platform \<Rightarrow> string list \<Rightarrow> 16 word list \<times> error option" where
  "collectCipherSuites P definedCipherSuites =
     collect_loop (strings_ToLower P)
       (supportedCipherSuitesMap (strings_ToLower P) (tls_CipherSuites P) Map.empty)
       definedCipherSuites []"

text \<open>
  A suite matches a name when their lower-cased names are equal: the comparison the
  code makes. A name is supported when some suite of the platform matches it.
\<close>

definition matches :: "platform \<Rightarrow> string \<Rightarrow> tls_CipherSuite \<Rightarrow> bool" where
  "matches P n s = (strings_ToLower P (Name s) = strings_ToLower P n)"

definition supported :: "platform \<Rightarrow> string \<Rightarrow> bool" where
  "supported P n = list_ex (matches P n) (tls_CipherSuites P)"

text \<open>The identifier of a supported name: that of the last matching suite.\<close>

definition suite_id :: "platform \<Rightarrow> string \<Rightarrow> 16 word" where
  "suite_id P n = ID (last (filter (matches P n) (tls_CipherSuites P)))"

subsection \<open>The certificate cache\<close>

text \<open>
  \<^verbatim>\<open>GetServerTLSConfig\<close> declares \<^verbatim>\<open>c\<close> once (\<^verbatim>\<open>c, err := tls.LoadX509KeyPair(...)\<close>) and
  the callback assigns to that same variable (\<^verbatim>\<open>c, err = tls.LoadX509KeyPair(...)\<close>, with
  \<^verbatim>\<open>=\<close>); \<^verbatim>\<open>cert = &c\<close> stores its address, and the callback hands that pointer out. What
  a caller sees through the pointer therefore depends on the variable's cell, so the
  model has a store: \<open>heap\<close> maps the address of a certificate variable to its value.
  \<open>loads\<close> counts the calls of \<^verbatim>\<open>tls.LoadX509KeyPair\<close> made so far.
\<close>

record world =
  heap :: "addr \<Rightarrow> tls_Certificate option"
  next_addr :: addr
  loads :: nat

text \<open>
  The variables the function literal captures. \<open>c_addr\<close> is the address of \<^verbatim>\<open>c\<close>;
  \<open>cert\<close> is the pointer \<^verbatim>\<open>*tls.Certificate\<close>. The mutex \<^verbatim>\<open>certLock\<close> serialises the
  callback's body; the model runs one invocation at a time.
\<close>

record closure =
  tlsCertFile :: string
  tlsKeyFile :: string
  certDeadline :: "64 word"
  c_addr :: addr
  err :: "error option"
  cert :: "addr option"

text \<open>
  What one invocation of the callback observes: the platform at that time, and the two
  values of \<^verbatim>\<open>fasttime.UnixTimestamp()\<close>, the first at the comparison with the deadline
  and the second when the new deadline is set.
\<close>

record moment =
  sys :: platform
  UnixTimestamp_check :: "64 word"
  UnixTimestamp_set :: "64 word"

text \<open>The function literal installed as \<^verbatim>\<open>GetCertificate\<close>.\<close>

definition GetCertificate ::
  "closure \<Rightarrow> moment \<Rightarrow> world \<Rightarrow> (addr option \<times> error option) \<times> closure \<times> world" where
  "GetCertificate k m w =
     (if UnixTimestamp_check m > certDeadline k then
        (case tls_LoadX509KeyPair (sys m) (tlsCertFile k) (tlsKeyFile k) of
           (c', err') \<Rightarrow>
             let w1 = w\<lparr>heap := (heap w)(c_addr k \<mapsto> c'), loads := Suc (loads w)\<rparr>;
                 k1 = k\<lparr>err := err'\<rparr>
             in (case err' of
                   Some e \<Rightarrow>
                     ((None, Some (CannotLoadTLSCert (tlsCertFile k) (tlsKeyFile k) e)), k1, w1)
                 | None \<Rightarrow>
                     let k2 = k1\<lparr>certDeadline := UnixTimestamp_set m + 1,
                                  cert := Some (c_addr k1)\<rparr>
                     in ((cert k2, None), k2, w1)))
      else ((cert k, None), k, w))"

text \<open>Reading a certificate through a pointer the callback returned.\<close>

definition deref :: "world \<Rightarrow> addr option \<Rightarrow> tls_Certificate option" where
  "deref w p = (case p of None \<Rightarrow> None | Some a \<Rightarrow> heap w a)"

subsection \<open>GetServerTLSConfig\<close>

text \<open>
  \<^verbatim>\<open>tls.Config\<close>: the fields the function sets, and \<^verbatim>\<open>ClientAuth\<close> and \<^verbatim>\<open>ClientCAs\<close> at
  their zero values otherwise. The callback is represented by its captured variables as
  they are when the function returns.
\<close>

record tls_Config =
  MinVersion :: "16 word"
  PreferServerCipherSuites :: bool
  GetCertificate_closure :: closure
  CipherSuites :: "16 word list"
  ClientAuth :: tls_ClientAuthType
  ClientCAs :: "bytes list option"

definition VersionTLS12 :: "16 word" where
  "VersionTLS12 = 0x0303"

definition GetServerTLSConfig ::
  "platform \<Rightarrow> string \<Rightarrow> string \<Rightarrow> string \<Rightarrow> string list \<Rightarrow> world
     \<Rightarrow> (tls_Config option \<times> error option) \<times> world" where
  "GetServerTLSConfig P tlsCAFile certFile keyFile tlsCipherSuites w =
     (case tls_LoadX509KeyPair P certFile keyFile of
        (c0, err0) \<Rightarrow>
          let a = next_addr w;
              w1 = w\<lparr>heap := (heap w)(a \<mapsto> c0), next_addr := Suc a, loads := Suc (loads w)\<rparr>
          in (case err0 of
                Some e \<Rightarrow> ((None, Some (CannotLoadTLSCert certFile keyFile e)), w1)
              | None \<Rightarrow>
                  (case collectCipherSuites P tlsCipherSuites of
                     (cipherSuites, Some e) \<Rightarrow>
                       ((None, Some (CannotUseCipherSuites tlsCipherSuites e)), w1)
                   | (cipherSuites, None) \<Rightarrow>
                       let k = \<lparr>tlsCertFile = certFile, tlsKeyFile = keyFile, certDeadline = 0,
                                c_addr = a, err = None, cert = Some a\<rparr>;
                           cfg = \<lparr>MinVersion = VersionTLS12, PreferServerCipherSuites = True,
                                  GetCertificate_closure = k, CipherSuites = cipherSuites,
                                  ClientAuth = NoClientCert, ClientCAs = None\<rparr>
                       in if tlsCAFile \<noteq> [] then
                            (let cfg1 = cfg\<lparr>ClientAuth := RequireAndVerifyClientCert\<rparr>
                             in case fs_ReadFileOrHTTP P tlsCAFile of
                                  (caPEM, Some e) \<Rightarrow>
                                    ((None, Some (CannotReadCAFile tlsCAFile e)), w1)
                                | (caPEM, None) \<Rightarrow>
                                    (case AppendCertsFromPEM P [] caPEM of
                                       (cp, ok) \<Rightarrow>
                                         if \<not> ok then
                                           ((None, Some (CannotParseCAFile tlsCAFile caPEM)), w1)
                                         else ((Some (cfg1\<lparr>ClientCAs := Some cp\<rparr>), None), w1)))
                          else ((Some cfg, None), w1))))"

subsection \<open>Runs of the callback\<close>

text \<open>The callback invoked at each moment of a list, in order.\<close>

fun serve :: "closure \<Rightarrow> world \<Rightarrow> moment list \<Rightarrow> closure \<times> world" where
  "serve k w [] = (k, w)"
| "serve k w (m # ms) = (case GetCertificate k m w of (r, k', w') \<Rightarrow> serve k' w' ms)"

text \<open>
  An invocation has loaded when it read the files and returned no error. The time of the
  last load of a run is the timestamp that load took after reading the files.
\<close>

definition loaded :: "closure \<Rightarrow> moment \<Rightarrow> world \<Rightarrow> bool" where
  "loaded k m w =
     (case GetCertificate k m w of (r, k', w') \<Rightarrow> loads w < loads w' \<and> snd r = None)"

fun last_load_time :: "closure \<Rightarrow> world \<Rightarrow> moment list \<Rightarrow> 64 word option \<Rightarrow> 64 word option" where
  "last_load_time k w [] t = t"
| "last_load_time k w (m # ms) t =
     (case GetCertificate k m w of
        (r, k', w') \<Rightarrow>
          last_load_time k' w' ms (if loaded k m w then Some (UnixTimestamp_set m) else t))"

subsection \<open>A platform to run the functions on\<close>

text \<open>\<^verbatim>\<open>strings.ToLower\<close> on ASCII text.\<close>

definition ascii_ToLower :: "string \<Rightarrow> string" where
  "ascii_ToLower s =
     map (\<lambda>ch. case map_of (zip ''ABCDEFGHIJKLMNOPQRSTUVWXYZ'' ''abcdefghijklmnopqrstuvwxyz'') ch of
                 Some l \<Rightarrow> l
               | None \<Rightarrow> ch) s"

definition suite :: "string \<Rightarrow> 16 word \<Rightarrow> tls_CipherSuite" where
  "suite n i = \<lparr>Name = n, ID = i\<rparr>"

definition certA :: tls_Certificate where
  "certA = \<lparr>Certificate = [''leaf-A''], PrivateKey = ''key-A''\<rparr>"

definition certB :: tls_Certificate where
  "certB = \<lparr>Certificate = [''leaf-B''], PrivateKey = ''key-B''\<rparr>"

text \<open>
  A disk is what \<^verbatim>\<open>tls.LoadX509KeyPair\<close> answers. \<open>disk_with c\<close> holds the pair \<open>c\<close> in
  \<^verbatim>\<open>cert.pem\<close> and \<^verbatim>\<open>key.pem\<close>; \<open>disk_broken\<close> holds nothing that parses, and the library
  returns \<^verbatim>\<open>Certificate{}\<close> with its error.
\<close>

definition disk_with :: "tls_Certificate \<Rightarrow> string \<Rightarrow> string \<Rightarrow> tls_Certificate \<times> error option" where
  "disk_with c certFile keyFile =
     (if certFile = ''cert.pem'' \<and> keyFile = ''key.pem'' then (c, None)
      else (zero_Certificate, Some (PlatformError ''no such file'')))"

definition disk_broken :: "string \<Rightarrow> string \<Rightarrow> tls_Certificate \<times> error option" where
  "disk_broken certFile keyFile =
     (zero_Certificate, Some (PlatformError ''failed to find any PEM data''))"

definition demo :: "(string \<Rightarrow> string \<Rightarrow> tls_Certificate \<times> error option) \<Rightarrow> platform" where
  "demo disk =
     \<lparr>tls_LoadX509KeyPair = disk,
      tls_CipherSuites =
        [suite ''TLS_AES_128_GCM_SHA256'' 0x1301,
         suite ''TLS_AES_256_GCM_SHA384'' 0x1302,
         suite ''TLS_CHACHA20_POLY1305_SHA256'' 0x1303],
      strings_ToLower = ascii_ToLower,
      fs_ReadFileOrHTTP =
        (\<lambda>path. if path = ''ca.pem'' then (''PEM:root-ca'', None)
                 else if path = ''empty.pem'' then ([], None)
                 else ([], Some (PlatformError ''no such file''))),
      AppendCertsFromPEM =
        (\<lambda>pool pem. if pem = ''PEM:root-ca'' then (pool @ [''root-ca''], True) else (pool, False))\<rparr>"

definition at :: "(string \<Rightarrow> string \<Rightarrow> tls_Certificate \<times> error option) \<Rightarrow> 64 word \<Rightarrow> moment" where
  "at disk t = \<lparr>sys = demo disk, UnixTimestamp_check = t, UnixTimestamp_set = t\<rparr>"

definition world0 :: world where
  "world0 = \<lparr>heap = (\<lambda>a. None), next_addr = 0, loads = 0\<rparr>"

subsection \<open>A server session to run\<close>

text \<open>
  The parts of what an invocation of the callback returns: the pair handed to the
  handshake, the captured variables afterwards, and the world afterwards.
\<close>

definition returned :: "(addr option \<times> error option) \<times> closure \<times> world \<Rightarrow> addr option \<times> error option" where
  "returned x = fst x"

definition closure_after :: "(addr option \<times> error option) \<times> closure \<times> world \<Rightarrow> closure" where
  "closure_after x = fst (snd x)"

definition world_after :: "(addr option \<times> error option) \<times> closure \<times> world \<Rightarrow> world" where
  "world_after x = snd (snd x)"

text \<open>
  The server is built while the disk holds \<open>certA\<close>, with no CA file and no cipher
  suites named: \<open>cfg_booted\<close> is the configuration \<open>GetServerTLSConfig\<close> returns then,
  \<open>w_booted\<close> the world it leaves, \<open>k_booted\<close> the callback of the configuration.
\<close>

definition k_booted :: closure where
  "k_booted = \<lparr>tlsCertFile = ''cert.pem'', tlsKeyFile = ''key.pem'', certDeadline = 0,
               c_addr = 0, err = None, cert = Some 0\<rparr>"

definition cfg_booted :: tls_Config where
  "cfg_booted = \<lparr>MinVersion = 0x0303, PreferServerCipherSuites = True,
                 GetCertificate_closure = k_booted, CipherSuites = [],
                 ClientAuth = NoClientCert, ClientCAs = None\<rparr>"

definition w_booted :: world where
  "w_booted = \<lparr>heap = (\<lambda>a. None)(0 \<mapsto> certA), next_addr = 1, loads = 1\<rparr>"

text \<open>A handshake at second 100 with the files intact, then one at second 102.\<close>

definition first_ok :: "(addr option \<times> error option) \<times> closure \<times> world" where
  "first_ok = GetCertificate k_booted (at (disk_with certA) 100) w_booted"

definition then_broken :: "(addr option \<times> error option) \<times> closure \<times> world" where
  "then_broken =
     GetCertificate (closure_after first_ok) (at disk_broken 102) (world_after first_ok)"

definition then_replaced :: "(addr option \<times> error option) \<times> closure \<times> world" where
  "then_replaced =
     GetCertificate (closure_after first_ok) (at (disk_with certB) 102) (world_after first_ok)"

text \<open>After the failed handshake the files are repaired, and a handshake follows at second 103.\<close>

definition then_fixed :: "(addr option \<times> error option) \<times> closure \<times> world" where
  "then_fixed =
     GetCertificate (closure_after then_broken) (at (disk_with certB) 103) (world_after then_broken)"

text \<open>A handshake at second 100 with the files broken, then another in the same second.\<close>

definition first_broken :: "(addr option \<times> error option) \<times> closure \<times> world" where
  "first_broken = GetCertificate k_booted (at disk_broken 100) w_booted"

definition second_same_second :: "(addr option \<times> error option) \<times> closure \<times> world" where
  "second_same_second =
     GetCertificate (closure_after first_broken) (at disk_broken 100) (world_after first_broken)"

text \<open>A second handshake at second 100 after the one that succeeded; the disk is broken by then.\<close>

definition second_ok :: "(addr option \<times> error option) \<times> closure \<times> world" where
  "second_ok =
     GetCertificate (closure_after first_ok) (at disk_broken 100) (world_after first_ok)"

text \<open>Two handshakes in the second whose timestamp is the largest 64-bit value.\<close>

definition first_at_max :: "(addr option \<times> error option) \<times> closure \<times> world" where
  "first_at_max = GetCertificate k_booted (at (disk_with certA) 0xFFFFFFFFFFFFFFFF) w_booted"

definition second_at_max :: "(addr option \<times> error option) \<times> closure \<times> world" where
  "second_at_max =
     GetCertificate (closure_after first_at_max) (at (disk_with certA) 0xFFFFFFFFFFFFFFFF)
       (world_after first_at_max)"

section \<open>Properties of collectCipherSuites\<close>

text \<open>What the map holds under a key: the identifier of the last suite stored there.\<close>

lemma supportedCipherSuitesMap_lookup:
  "supportedCipherSuitesMap lower suites m key =
     (case filter (\<lambda>s. lower (Name s) = key) suites of
        [] \<Rightarrow> m key
      | _ # _ \<Rightarrow> Some (ID (last (filter (\<lambda>s. lower (Name s) = key) suites))))"
proof (induction suites arbitrary: m)
  case Nil
  show ?case by simp
next
  case (Cons scf rest)
  show ?case
    by (cases "filter (\<lambda>s. lower (Name s) = key) rest") (auto simp: Cons.IH)
qed

lemma catalog_lookup:
  "supportedCipherSuitesMap (strings_ToLower P) (tls_CipherSuites P) Map.empty (strings_ToLower P n) =
     (if supported P n then Some (suite_id P n) else None)"
proof -
  have eq: "(\<lambda>s. strings_ToLower P (Name s) = strings_ToLower P n) = matches P n"
    by (simp add: matches_def fun_eq_iff)
  have ex: "supported P n \<longleftrightarrow> filter (matches P n) (tls_CipherSuites P) \<noteq> []"
    by (auto simp: supported_def list_ex_iff filter_empty_conv)
  show ?thesis
    unfolding supportedCipherSuitesMap_lookup eq
    by (cases "filter (matches P n) (tls_CipherSuites P)") (simp_all add: ex suite_id_def)
qed

lemma suite_id_in_catalog:
  assumes "supported P n"
  shows "\<exists>s \<in> set (tls_CipherSuites P). matches P n s \<and> ID s = suite_id P n"
proof -
  let ?ms = "filter (matches P n) (tls_CipherSuites P)"
  from assms have ne: "?ms \<noteq> []"
    by (auto simp: supported_def list_ex_iff filter_empty_conv)
  then have "last ?ms \<in> set ?ms" by (rule last_in_set)
  then show ?thesis by (auto simp: suite_id_def)
qed

lemma collect_loop_all:
  "\<forall>n \<in> set names. \<exists>i. m (lower n) = Some i \<Longrightarrow>
   collect_loop lower m names acc = (acc @ map (\<lambda>n. the (m (lower n))) names, None)"
  by (induction names arbitrary: acc) auto

lemma collect_loop_bad:
  "\<forall>n \<in> set pre. \<exists>i. m (lower n) = Some i \<Longrightarrow> m (lower bad) = None \<Longrightarrow>
   collect_loop lower m (pre @ bad # post) acc = ([], Some (UnsupportedCipherSuite bad))"
  by (induction pre arbitrary: acc) auto

lemma find_first_split:
  "\<exists>n \<in> set xs. Q n \<Longrightarrow>
   \<exists>pre bad post. xs = pre @ bad # post \<and> (\<forall>n \<in> set pre. \<not> Q n) \<and> Q bad \<and> find Q xs = Some bad"
proof (induction xs)
  case Nil
  then show ?case by simp
next
  case (Cons x xs)
  show ?case
  proof (cases "Q x")
    case True
    then have "x # xs = [] @ x # xs \<and> (\<forall>n \<in> set []. \<not> Q n) \<and> Q x \<and> find Q (x # xs) = Some x"
      by simp
    then show ?thesis by blast
  next
    case False
    with Cons.prems have "\<exists>n \<in> set xs. Q n" by auto
    from Cons.IH[OF this] obtain pre bad post where
      h: "xs = pre @ bad # post" "\<forall>n \<in> set pre. \<not> Q n" "Q bad" "find Q xs = Some bad"
      by blast
    with False have "x # xs = (x # pre) @ bad # post \<and> (\<forall>n \<in> set (x # pre). \<not> Q n) \<and> Q bad
        \<and> find Q (x # xs) = Some bad"
      by simp
    then show ?thesis by blast
  qed
qed

text \<open>Lower-casing the names of the example platform and of the example inputs.\<close>

lemma ascii_ToLower_names:
  "ascii_ToLower ''TLS_AES_128_GCM_SHA256'' = ''tls_aes_128_gcm_sha256''"
  "ascii_ToLower ''TLS_AES_256_GCM_SHA384'' = ''tls_aes_256_gcm_sha384''"
  "ascii_ToLower ''TLS_CHACHA20_POLY1305_SHA256'' = ''tls_chacha20_poly1305_sha256''"
  "ascii_ToLower ''tls_aes_256_gcm_sha384'' = ''tls_aes_256_gcm_sha384''"
  "ascii_ToLower ''Tls_Aes_256_Gcm_Sha384'' = ''tls_aes_256_gcm_sha384''"
  "ascii_ToLower ''bogus_suite'' = ''bogus_suite''"
  "ascii_ToLower ''worse'' = ''worse''"
  by (simp_all add: ascii_ToLower_def)

lemmas demo_catalog =
  supported_def matches_def suite_id_def demo_def suite_def ascii_ToLower_names

text \<open>
  Claim C5. When every name of the list matches a supported suite of the platform
  (equal after lower-casing), \<open>collectCipherSuites\<close> returns no error and the identifiers
  of the names in the order of the input, one per name, repeated names included; each
  identifier is that of a supported suite matching its name. For the empty list it
  returns the empty (nil) sequence and no error.
\<close>

theorem collectCipherSuites_resolves_in_order:
  assumes "\<forall>n \<in> set names. supported P n"
  shows "collectCipherSuites P names = (map (suite_id P) names, None)
       \<and> (\<forall>n \<in> set names. \<exists>s \<in> set (tls_CipherSuites P). matches P n s \<and> ID s = suite_id P n)
       \<and> collectCipherSuites P [] = ([], None)"
proof -
  let ?m = "supportedCipherSuitesMap (strings_ToLower P) (tls_CipherSuites P) Map.empty"
  have "\<forall>n \<in> set names. \<exists>i. ?m (strings_ToLower P n) = Some i"
    using assms by (simp add: catalog_lookup)
  then have "collect_loop (strings_ToLower P) ?m names [] =
      ([] @ map (\<lambda>n. the (?m (strings_ToLower P n))) names, None)"
    by (rule collect_loop_all)
  moreover have "map (\<lambda>n. the (?m (strings_ToLower P n))) names = map (suite_id P) names"
    using assms by (simp add: catalog_lookup)
  ultimately have "collectCipherSuites P names = (map (suite_id P) names, None)"
    by (simp add: collectCipherSuites_def)
  moreover have "\<forall>n \<in> set names. \<exists>s \<in> set (tls_CipherSuites P). matches P n s \<and> ID s = suite_id P n"
    using assms suite_id_in_catalog by blast
  moreover have "collectCipherSuites P [] = ([], None)"
    by (simp add: collectCipherSuites_def)
  ultimately show ?thesis by blast
qed

theorem collectCipherSuites_resolves_in_order_witness:
  "supported (demo disk_broken) ''tls_aes_256_gcm_sha384''
   \<and> supported (demo disk_broken) ''TLS_AES_128_GCM_SHA256''
   \<and> supported (demo disk_broken) ''Tls_Aes_256_Gcm_Sha384''
   \<and> collectCipherSuites (demo disk_broken)
       [''tls_aes_256_gcm_sha384'', ''TLS_AES_128_GCM_SHA256'', ''Tls_Aes_256_Gcm_Sha384'']
     = ([0x1302, 0x1301, 0x1302], None)"
proof -
  let ?names = "[''tls_aes_256_gcm_sha384'', ''TLS_AES_128_GCM_SHA256'', ''Tls_Aes_256_Gcm_Sha384'']"
  have h: "\<forall>n \<in> set ?names. supported (demo disk_broken) n"
    by (simp add: demo_catalog)
  have ids: "map (suite_id (demo disk_broken)) ?names = [0x1302, 0x1301, 0x1302]"
    by (simp add: demo_catalog)
  from collectCipherSuites_resolves_in_order [OF h] ids h show ?thesis
    by simp
qed

text \<open>
  Claim C6. When some name of the list matches no supported suite, \<open>collectCipherSuites\<close>
  returns the error for an unsupported cipher suite that names the first such entry of
  the list, as it was given, and returns no identifiers.
\<close>

theorem collectCipherSuites_unsupported:
  assumes "\<exists>n \<in> set names. \<not> supported P n"
  shows "\<exists>bad. find (\<lambda>n. \<not> supported P n) names = Some bad
           \<and> collectCipherSuites P names = ([], Some (UnsupportedCipherSuite bad))"
proof -
  let ?m = "supportedCipherSuitesMap (strings_ToLower P) (tls_CipherSuites P) Map.empty"
  from find_first_split [OF assms] obtain pre bad post where
    h: "names = pre @ bad # post" "\<forall>n \<in> set pre. \<not> \<not> supported P n" "\<not> supported P bad"
       "find (\<lambda>n. \<not> supported P n) names = Some bad"
    by blast
  from h(2) have "\<forall>n \<in> set pre. \<exists>i. ?m (strings_ToLower P n) = Some i"
    by (simp add: catalog_lookup)
  moreover from h(3) have "?m (strings_ToLower P bad) = None"
    by (simp add: catalog_lookup)
  ultimately have "collect_loop (strings_ToLower P) ?m (pre @ bad # post) [] =
      ([], Some (UnsupportedCipherSuite bad))"
    by (rule collect_loop_bad)
  with h(1) have "collectCipherSuites P names = ([], Some (UnsupportedCipherSuite bad))"
    by (simp add: collectCipherSuites_def)
  with h(4) show ?thesis by blast
qed

theorem collectCipherSuites_unsupported_witness:
  "supported (demo disk_broken) ''TLS_AES_128_GCM_SHA256''
   \<and> \<not> supported (demo disk_broken) ''bogus_suite''
   \<and> collectCipherSuites (demo disk_broken) [''TLS_AES_128_GCM_SHA256'', ''bogus_suite'', ''worse'']
     = ([], Some (UnsupportedCipherSuite ''bogus_suite''))"
proof -
  let ?names = "[''TLS_AES_128_GCM_SHA256'', ''bogus_suite'', ''worse'']"
  have h: "\<exists>n \<in> set ?names. \<not> supported (demo disk_broken) n"
    by (simp add: demo_catalog)
  have f: "find (\<lambda>n. \<not> supported (demo disk_broken) n) ?names = Some ''bogus_suite''"
    by (simp add: demo_catalog)
  have s: "supported (demo disk_broken) ''TLS_AES_128_GCM_SHA256''"
    "\<not> supported (demo disk_broken) ''bogus_suite''"
    by (simp_all add: demo_catalog)
  from collectCipherSuites_unsupported [OF h] f s show ?thesis
    by simp
qed

section \<open>Properties of the GetCertificate callback\<close>

text \<open>The three ways through the callback.\<close>

lemma GetCertificate_fresh:
  "\<not> UnixTimestamp_check m > certDeadline k \<Longrightarrow> GetCertificate k m w = ((cert k, None), k, w)"
  by (simp add: GetCertificate_def)

lemma GetCertificate_reload_ok:
  "UnixTimestamp_check m > certDeadline k \<Longrightarrow>
   tls_LoadX509KeyPair (sys m) (tlsCertFile k) (tlsKeyFile k) = (c', None) \<Longrightarrow>
   GetCertificate k m w =
     ((Some (c_addr k), None),
      k\<lparr>err := None, certDeadline := UnixTimestamp_set m + 1, cert := Some (c_addr k)\<rparr>,
      w\<lparr>heap := (heap w)(c_addr k \<mapsto> c'), loads := Suc (loads w)\<rparr>)"
  by (simp add: GetCertificate_def Let_def)

lemma GetCertificate_reload_fail:
  "UnixTimestamp_check m > certDeadline k \<Longrightarrow>
   tls_LoadX509KeyPair (sys m) (tlsCertFile k) (tlsKeyFile k) = (c', Some e) \<Longrightarrow>
   GetCertificate k m w =
     ((None, Some (CannotLoadTLSCert (tlsCertFile k) (tlsKeyFile k) e)),
      k\<lparr>err := Some e\<rparr>,
      w\<lparr>heap := (heap w)(c_addr k \<mapsto> c'), loads := Suc (loads w)\<rparr>)"
  by (simp add: GetCertificate_def Let_def)

lemma GetCertificate_cases:
  obtains (fresh) "\<not> UnixTimestamp_check m > certDeadline k"
  | (ok) c' where "UnixTimestamp_check m > certDeadline k"
      "tls_LoadX509KeyPair (sys m) (tlsCertFile k) (tlsKeyFile k) = (c', None)"
  | (fail) c' e where "UnixTimestamp_check m > certDeadline k"
      "tls_LoadX509KeyPair (sys m) (tlsCertFile k) (tlsKeyFile k) = (c', Some e)"
proof (cases "UnixTimestamp_check m > certDeadline k")
  case False
  then show ?thesis by (rule fresh)
next
  case True
  obtain c' e' where l: "tls_LoadX509KeyPair (sys m) (tlsCertFile k) (tlsKeyFile k) = (c', e')"
    by (cases "tls_LoadX509KeyPair (sys m) (tlsCertFile k) (tlsKeyFile k)")
  show ?thesis
  proof (cases e')
    case None
    with True l show ?thesis by (auto intro: ok)
  next
    case (Some e)
    with True l show ?thesis by (auto intro: fail)
  qed
qed

lemma loaded_iff:
  "loaded k m w \<longleftrightarrow>
     UnixTimestamp_check m > certDeadline k
     \<and> snd (tls_LoadX509KeyPair (sys m) (tlsCertFile k) (tlsKeyFile k)) = None"
  by (cases k m rule: GetCertificate_cases)
     (simp_all add: loaded_def GetCertificate_fresh GetCertificate_reload_ok GetCertificate_reload_fail)

lemma loaded_deadline:
  "loaded k m w \<Longrightarrow> certDeadline (closure_after (GetCertificate k m w)) = UnixTimestamp_set m + 1"
  by (cases k m rule: GetCertificate_cases)
     (simp_all add: loaded_iff GetCertificate_reload_ok closure_after_def)

text \<open>The callback \<open>GetServerTLSConfig\<close> installs.\<close>

lemma GetServerTLSConfig_closure:
  assumes "GetServerTLSConfig P ca cf kf cs w = ((Some cfg, None), w1)"
  shows "GetCertificate_closure cfg =
           \<lparr>tlsCertFile = cf, tlsKeyFile = kf, certDeadline = 0, c_addr = next_addr w,
            err = None, cert = Some (next_addr w)\<rparr>"
  using assms
  by (auto simp: GetServerTLSConfig_def Let_def split: prod.splits option.splits if_splits)

text \<open>The example session starts from what the builder returns.\<close>

lemma booted:
  "GetServerTLSConfig (demo (disk_with certA)) [] ''cert.pem'' ''key.pem'' [] world0 =
     ((Some cfg_booted, None), w_booted)"
  by (simp add: GetServerTLSConfig_def collectCipherSuites_def demo_def disk_with_def world0_def
      cfg_booted_def k_booted_def w_booted_def VersionTLS12_def Let_def)

lemmas session =
  k_booted_def cfg_booted_def w_booted_def first_ok_def then_broken_def then_replaced_def
  then_fixed_def
  first_broken_def second_same_second_def second_ok_def first_at_max_def second_at_max_def
  returned_def closure_after_def world_after_def
  GetCertificate_def demo_def at_def disk_with_def disk_broken_def deref_def Let_def

text \<open>
  Claim C8. When the current time is past the cached deadline and the files on disk hold
  a new certificate pair, the invocation reads the files (one more load) and returns a
  pointer through which the caller reads the new certificate.
\<close>

theorem GetCertificate_reloads_after_deadline:
  assumes "UnixTimestamp_check m > certDeadline k"
    and "tls_LoadX509KeyPair (sys m) (tlsCertFile k) (tlsKeyFile k) = (new, None)"
  shows "\<exists>p. returned (GetCertificate k m w) = (Some p, None)
           \<and> deref (world_after (GetCertificate k m w)) (Some p) = Some new
           \<and> loads (world_after (GetCertificate k m w)) = Suc (loads w)"
  by (simp add: GetCertificate_reload_ok [OF assms] returned_def world_after_def deref_def)

theorem GetCertificate_reloads_after_deadline_witness:
  "certDeadline (closure_after first_ok) = 101
   \<and> UnixTimestamp_check (at (disk_with certB) 102) = 102
   \<and> tls_LoadX509KeyPair (sys (at (disk_with certB) 102)) ''cert.pem'' ''key.pem'' = (certB, None)
   \<and> deref w_booted (Some 0) = Some certA
   \<and> returned then_replaced = (Some 0, None)
   \<and> deref (world_after then_replaced) (Some 0) = Some certB
   \<and> loads (world_after then_replaced) = Suc (loads (world_after first_ok))"
proof -
  have k: "certDeadline (closure_after first_ok) = 101"
    "tlsCertFile (closure_after first_ok) = ''cert.pem''"
    "tlsKeyFile (closure_after first_ok) = ''key.pem''"
    by (simp_all add: session)
  have t: "UnixTimestamp_check (at (disk_with certB) 102) = 102"
    by (simp add: at_def)
  have h1: "UnixTimestamp_check (at (disk_with certB) 102) > certDeadline (closure_after first_ok)"
    by (simp add: k t)
  have h2: "tls_LoadX509KeyPair (sys (at (disk_with certB) 102))
      (tlsCertFile (closure_after first_ok)) (tlsKeyFile (closure_after first_ok)) = (certB, None)"
    by (simp add: k at_def demo_def disk_with_def)
  have r: "returned then_replaced = (Some 0, None)" "deref w_booted (Some 0) = Some certA"
    by (simp_all add: session)
  from GetCertificate_reloads_after_deadline [OF h1 h2, of "world_after first_ok"] r h2 k t
  show ?thesis
    by (simp add: then_replaced_def)
qed

text \<open>
  Claim C10. For a configuration \<open>GetServerTLSConfig\<close> returned, the deadline of its
  callback is zero, so the first invocation at any timestamp greater than zero reads the
  files again, whatever the time since construction: the number of loads grows by one
  and the cell of \<^verbatim>\<open>c\<close> then holds what that load returned, not what the builder loaded.
  When that load fails the invocation returns the error and no certificate, although
  the builder's load succeeded; when it succeeds the invocation returns the pointer to
  the cell.
\<close>

theorem first_invocation_reloads:
  assumes b: "GetServerTLSConfig P ca cf kf cs w = ((Some cfg, None), w1)"
    and t: "0 < UnixTimestamp_check m"
    and l: "tls_LoadX509KeyPair (sys m) cf kf = (c', e')"
  shows "certDeadline (GetCertificate_closure cfg) = 0
       \<and> loads (world_after (GetCertificate (GetCertificate_closure cfg) m w1)) = Suc (loads w1)
       \<and> deref (world_after (GetCertificate (GetCertificate_closure cfg) m w1))
            (cert (GetCertificate_closure cfg)) = Some c'
       \<and> returned (GetCertificate (GetCertificate_closure cfg) m w1) =
            (case e' of
               None \<Rightarrow> (cert (GetCertificate_closure cfg), None)
             | Some e \<Rightarrow> (None, Some (CannotLoadTLSCert cf kf e)))"
proof -
  let ?k = "GetCertificate_closure cfg"
  note k = GetServerTLSConfig_closure [OF b]
  have past: "UnixTimestamp_check m > certDeadline ?k"
    using t by (simp add: k)
  show ?thesis
  proof (cases e')
    case None
    with l have "tls_LoadX509KeyPair (sys m) (tlsCertFile ?k) (tlsKeyFile ?k) = (c', None)"
      by (simp add: k)
    from GetCertificate_reload_ok [OF past this] None show ?thesis
      by (simp add: k returned_def world_after_def deref_def)
  next
    case (Some e)
    with l have "tls_LoadX509KeyPair (sys m) (tlsCertFile ?k) (tlsKeyFile ?k) = (c', Some e)"
      by (simp add: k)
    from GetCertificate_reload_fail [OF past this] Some show ?thesis
      by (simp add: k returned_def world_after_def deref_def)
  qed
qed

theorem first_invocation_reloads_witness:
  "GetServerTLSConfig (demo (disk_with certA)) [] ''cert.pem'' ''key.pem'' [] world0 =
     ((Some cfg_booted, None), w_booted)
   \<and> (0 :: 64 word) < UnixTimestamp_check (at disk_broken 100)
   \<and> loads w_booted = 1
   \<and> loads (world_after first_broken) = 2
   \<and> returned first_broken =
       (None, Some (CannotLoadTLSCert ''cert.pem'' ''key.pem''
          (PlatformError ''failed to find any PEM data'')))"
proof -
  have t: "(0 :: 64 word) < UnixTimestamp_check (at disk_broken 100)"
    by (simp add: at_def)
  have l: "tls_LoadX509KeyPair (sys (at disk_broken 100)) ''cert.pem'' ''key.pem'' =
      (zero_Certificate, Some (PlatformError ''failed to find any PEM data''))"
    by (simp add: at_def demo_def disk_broken_def)
  have k: "GetCertificate_closure cfg_booted = k_booted" "loads w_booted = 1"
    by (simp_all add: cfg_booted_def w_booted_def)
  from first_invocation_reloads [OF booted t l] booted t k show ?thesis
    by (simp add: first_broken_def)
qed

text \<open>
  Claim C3, as amended. When an invocation returns a certificate, and a second
  invocation observes the same timestamp as the first did at both of its clock reads,
  and that timestamp is below the largest 64-bit value, the second invocation returns
  the identical pointer and changes neither the captured variables nor the world: it
  makes no load, whatever the disk holds by then.
\<close>

theorem same_second_returns_cached:
  assumes r: "GetCertificate k m1 w = ((Some p, None), k', w')"
    and t: "UnixTimestamp_check m1 = t" "UnixTimestamp_set m1 = t" "UnixTimestamp_check m2 = t"
    and nowrap: "t < 0xFFFFFFFFFFFFFFFF"
  shows "GetCertificate k' m2 w' = ((Some p, None), k', w')"
proof (cases k m1 rule: GetCertificate_cases)
  case fresh
  with r t show ?thesis by (auto simp: GetCertificate_fresh)
next
  case (ok c')
  from r have k': "certDeadline k' = t + 1" "cert k' = Some p"
    using t by (auto simp: GetCertificate_reload_ok [OF ok])
  from nowrap have "t < t + 1"
    by (simp add: word_less_nat_alt unat_word_ariths)
  then have "\<not> UnixTimestamp_check m2 > certDeadline k'"
    using k' t by simp
  then show ?thesis using k' by (simp add: GetCertificate_fresh)
next
  case (fail c' e)
  with r show ?thesis by (simp add: GetCertificate_reload_fail [OF fail])
qed

theorem same_second_returns_cached_witness:
  "returned first_ok = (Some 0, None)
   \<and> UnixTimestamp_check (at (disk_with certA) 100) = 100
   \<and> UnixTimestamp_set (at (disk_with certA) 100) = 100
   \<and> UnixTimestamp_check (at disk_broken 100) = 100
   \<and> (100 :: 64 word) < 0xFFFFFFFFFFFFFFFF
   \<and> returned second_ok = (Some 0, None)
   \<and> loads (world_after second_ok) = loads (world_after first_ok)"
proof -
  have r: "GetCertificate k_booted (at (disk_with certA) 100) w_booted =
      ((Some 0, None), closure_after first_ok, world_after first_ok)"
    by (simp add: session)
  have t: "UnixTimestamp_check (at (disk_with certA) 100) = 100"
    "UnixTimestamp_set (at (disk_with certA) 100) = 100"
    "UnixTimestamp_check (at disk_broken 100) = 100"
    by (simp_all add: at_def)
  have n: "(100 :: 64 word) < 0xFFFFFFFFFFFFFFFF"
    by simp
  have f: "returned first_ok = (Some 0, None)"
    by (simp add: session)
  from same_second_returns_cached [OF r t n] f t n show ?thesis
    by (simp add: second_ok_def returned_def world_after_def)
qed

text \<open>
  Two invocations in one second that both read the files. In second 100 the first finds
  the files broken and returns no certificate; the deadline stays zero and the second
  loads again. In the second whose timestamp is the largest 64-bit value the first
  succeeds and sets the deadline to that value plus one, which is zero; the second loads
  again.
\<close>

theorem same_second_rereads_counterexample:
  "GetServerTLSConfig (demo (disk_with certA)) [] ''cert.pem'' ''key.pem'' [] world0 =
     ((Some cfg_booted, None), w_booted)
   \<and> GetCertificate_closure cfg_booted = k_booted
   \<and> fst (returned first_broken) = None
   \<and> loads (world_after second_same_second) = Suc (loads (world_after first_broken))
   \<and> returned first_at_max = (Some 0, None)
   \<and> loads (world_after second_at_max) = Suc (loads (world_after first_at_max))"
  by (simp add: booted) (simp add: session)

text \<open>The deadline after a run, from the time of the run's last load.\<close>

lemma serve_deadline:
  "certDeadline k = (case t0 of None \<Rightarrow> d | Some t \<Rightarrow> t + 1) \<Longrightarrow>
   certDeadline (fst (serve k w ms)) =
     (case last_load_time k w ms t0 of None \<Rightarrow> d | Some t \<Rightarrow> t + 1)"
proof (induction ms arbitrary: k w t0)
  case Nil
  then show ?case by simp
next
  case (Cons m ms)
  show ?case
  proof (cases k m rule: GetCertificate_cases)
    case fresh
    then have "\<not> loaded k m w" by (simp add: loaded_iff)
    with fresh Cons.prems show ?thesis
      by (simp add: GetCertificate_fresh Cons.IH)
  next
    case (ok c')
    then have "loaded k m w" by (simp add: loaded_iff)
    then show ?thesis
      by (simp add: GetCertificate_reload_ok [OF ok] Cons.IH)
  next
    case (fail c' e)
    then have "\<not> loaded k m w" by (simp add: loaded_iff)
    with Cons.prems show ?thesis
      by (simp add: GetCertificate_reload_fail [OF fail] Cons.IH)
  qed
qed

text \<open>
  Claim C4. After any run of invocations of the callback of a configuration the builder
  returned, the deadline is zero when no invocation of the run has loaded, and otherwise
  the timestamp of the last load plus one (in 64-bit arithmetic). An invocation that
  loads sets the deadline to the timestamp it reads after the load, plus one.
\<close>

theorem certDeadline_invariant:
  assumes b: "GetServerTLSConfig P ca cf kf cs w = ((Some cfg, None), w1)"
  shows "certDeadline (fst (serve (GetCertificate_closure cfg) w1 ms)) =
           (case last_load_time (GetCertificate_closure cfg) w1 ms None of
              None \<Rightarrow> 0
            | Some t \<Rightarrow> t + 1)
       \<and> (loaded k m w' \<longrightarrow>
            certDeadline (closure_after (GetCertificate k m w')) = UnixTimestamp_set m + 1)"
proof -
  have "certDeadline (GetCertificate_closure cfg) = (case None of None \<Rightarrow> 0 | Some t \<Rightarrow> t + 1)"
    by (simp add: GetServerTLSConfig_closure [OF b])
  from serve_deadline [OF this] loaded_deadline show ?thesis by simp
qed

theorem certDeadline_invariant_witness:
  "GetServerTLSConfig (demo (disk_with certA)) [] ''cert.pem'' ''key.pem'' [] world0 =
     ((Some cfg_booted, None), w_booted)
   \<and> last_load_time k_booted w_booted [] None = None
   \<and> certDeadline (fst (serve k_booted w_booted [])) = 0
   \<and> last_load_time k_booted w_booted
        [at (disk_with certA) 100, at disk_broken 102, at (disk_with certB) 103] None = Some 103
   \<and> certDeadline (fst (serve k_booted w_booted
        [at (disk_with certA) 100, at disk_broken 102, at (disk_with certB) 103])) = 104
   \<and> loaded k_booted (at (disk_with certA) 100) w_booted
   \<and> certDeadline (closure_after first_ok) = 101"
proof -
  let ?ms = "[at (disk_with certA) 100, at disk_broken 102, at (disk_with certB) 103]"
  have k: "GetCertificate_closure cfg_booted = k_booted"
    by (simp add: cfg_booted_def)
  have l0: "last_load_time k_booted w_booted [] None = None"
    by simp
  have l3: "last_load_time k_booted w_booted ?ms None = Some 103"
    by (simp add: loaded_def session)
  have ld: "loaded k_booted (at (disk_with certA) 100) w_booted"
    by (simp add: loaded_def session)
  have s: "UnixTimestamp_set (at (disk_with certA) 100) = 100"
    by (simp add: at_def)
  from certDeadline_invariant [OF booted, of "[]" k_booted "at (disk_with certA) 100" w_booted]
    certDeadline_invariant [OF booted, of ?ms k_booted "at (disk_with certA) 100" w_booted]
    booted k l0 l3 ld s
  show ?thesis
    by (simp add: first_ok_def)
qed

text \<open>
  Claim C1. The session: the server is built, a handshake at second 100 loads \<open>certA\<close>,
  the files break, a handshake at second 102 fails, the files are repaired with \<open>certB\<close>
  and a handshake at second 103 follows. The failed invocation returns the error and
  leaves the pointer \<open>cert\<close> and the deadline as they were, and the invocation after the
  repair returns \<open>certB\<close>; but the assignment \<^verbatim>\<open>c, err = tls.LoadX509KeyPair(...)\<close> of
  the failed invocation has stored the failed load's certificate in \<^verbatim>\<open>c\<close>, the variable
  \<open>cert\<close> points to, so the cached certificate is no longer \<open>certA\<close> after the failure:
  it is the empty certificate.
\<close>

theorem failed_reload_overwrites_cached_certificate:
  "GetServerTLSConfig (demo (disk_with certA)) [] ''cert.pem'' ''key.pem'' [] world0 =
     ((Some cfg_booted, None), w_booted)
   \<and> GetCertificate_closure cfg_booted = k_booted
   \<and> returned first_ok = (Some 0, None)
   \<and> deref (world_after first_ok) (cert (closure_after first_ok)) = Some certA
   \<and> returned then_broken =
       (None, Some (CannotLoadTLSCert ''cert.pem'' ''key.pem''
          (PlatformError ''failed to find any PEM data'')))
   \<and> certDeadline (closure_after then_broken) = certDeadline (closure_after first_ok)
   \<and> cert (closure_after then_broken) = cert (closure_after first_ok)
   \<and> deref (world_after then_broken) (cert (closure_after then_broken)) = Some zero_Certificate
   \<and> zero_Certificate \<noteq> certA
   \<and> returned then_fixed = (Some 0, None)
   \<and> deref (world_after then_fixed) (fst (returned then_fixed)) = Some certB"
  by (simp add: booted) (simp add: session certA_def zero_Certificate_def)

text \<open>
  Claim C2. The session: the server is built, a handshake at second 100 obtains a
  pointer to \<open>certA\<close>, and a handshake at second 102 reloads. Every invocation returns
  the address of the one variable \<^verbatim>\<open>c\<close>, and a reload assigns to that variable: read
  through the pointer obtained at second 100, the certificate is \<open>certB\<close> after a
  successful reload and the empty certificate after a failed one.
\<close>

theorem reload_mutates_returned_certificate:
  "GetServerTLSConfig (demo (disk_with certA)) [] ''cert.pem'' ''key.pem'' [] world0 =
     ((Some cfg_booted, None), w_booted)
   \<and> GetCertificate_closure cfg_booted = k_booted
   \<and> returned first_ok = (Some 0, None)
   \<and> deref (world_after first_ok) (fst (returned first_ok)) = Some certA
   \<and> returned then_replaced = (Some 0, None)
   \<and> deref (world_after then_replaced) (fst (returned first_ok)) = Some certB
   \<and> deref (world_after then_broken) (fst (returned first_ok)) = Some zero_Certificate
   \<and> certB \<noteq> certA"
  by (simp add: booted) (simp add: session certA_def certB_def)

section \<open>Properties of GetServerTLSConfig\<close>

text \<open>
  Claim C9. \<open>GetServerTLSConfig\<close> loads the certificate pair once when it is called,
  whatever it returns. It returns the error of the first step that fails and no
  configuration: a failed load gives the error that names both file paths, a failed
  resolution of the cipher suites the error that carries the requested list, an
  unreadable CA file or one without a certificate the error that names the CA path.
  What it returns is either a configuration without an error or an error without a
  configuration.
\<close>

theorem GetServerTLSConfig_first_error:
  "(\<forall>c0 e. tls_LoadX509KeyPair P cf kf = (c0, Some e) \<longrightarrow>
      fst (GetServerTLSConfig P ca cf kf cs w) = (None, Some (CannotLoadTLSCert cf kf e)))
   \<and> (\<forall>c0 ids e. tls_LoadX509KeyPair P cf kf = (c0, None) \<longrightarrow>
        collectCipherSuites P cs = (ids, Some e) \<longrightarrow>
        fst (GetServerTLSConfig P ca cf kf cs w) = (None, Some (CannotUseCipherSuites cs e)))
   \<and> (\<forall>c0 ids pem e. tls_LoadX509KeyPair P cf kf = (c0, None) \<longrightarrow>
        collectCipherSuites P cs = (ids, None) \<longrightarrow> ca \<noteq> [] \<longrightarrow>
        fs_ReadFileOrHTTP P ca = (pem, Some e) \<longrightarrow>
        fst (GetServerTLSConfig P ca cf kf cs w) = (None, Some (CannotReadCAFile ca e)))
   \<and> (\<forall>c0 ids pem cp. tls_LoadX509KeyPair P cf kf = (c0, None) \<longrightarrow>
        collectCipherSuites P cs = (ids, None) \<longrightarrow> ca \<noteq> [] \<longrightarrow>
        fs_ReadFileOrHTTP P ca = (pem, None) \<longrightarrow> AppendCertsFromPEM P [] pem = (cp, False) \<longrightarrow>
        fst (GetServerTLSConfig P ca cf kf cs w) = (None, Some (CannotParseCAFile ca pem)))
   \<and> ((\<exists>cfg. fst (GetServerTLSConfig P ca cf kf cs w) = (Some cfg, None))
        \<or> (\<exists>e. fst (GetServerTLSConfig P ca cf kf cs w) = (None, Some e)))
   \<and> loads (snd (GetServerTLSConfig P ca cf kf cs w)) = Suc (loads w)"
  by (auto simp: GetServerTLSConfig_def Let_def split: prod.splits option.splits)

theorem GetServerTLSConfig_first_error_witness:
  "fst (GetServerTLSConfig (demo disk_broken) [] ''cert.pem'' ''key.pem'' [] world0) =
     (None, Some (CannotLoadTLSCert ''cert.pem'' ''key.pem''
        (PlatformError ''failed to find any PEM data'')))
   \<and> fst (GetServerTLSConfig (demo (disk_with certA)) [] ''cert.pem'' ''key.pem''
        [''TLS_AES_128_GCM_SHA256'', ''bogus_suite''] world0) =
     (None, Some (CannotUseCipherSuites [''TLS_AES_128_GCM_SHA256'', ''bogus_suite'']
        (UnsupportedCipherSuite ''bogus_suite'')))
   \<and> fst (GetServerTLSConfig (demo (disk_with certA)) ''missing.pem'' ''cert.pem'' ''key.pem''
        [] world0) =
     (None, Some (CannotReadCAFile ''missing.pem'' (PlatformError ''no such file'')))
   \<and> fst (GetServerTLSConfig (demo (disk_with certA)) ''empty.pem'' ''cert.pem'' ''key.pem''
        [] world0) =
     (None, Some (CannotParseCAFile ''empty.pem'' []))
   \<and> loads (snd (GetServerTLSConfig (demo disk_broken) [] ''cert.pem'' ''key.pem'' [] world0)) = 1"
proof -
  let ?ok = "demo (disk_with certA)"
  have bad: "tls_LoadX509KeyPair (demo disk_broken) ''cert.pem'' ''key.pem'' =
      (zero_Certificate, Some (PlatformError ''failed to find any PEM data''))"
    by (simp add: demo_def disk_broken_def)
  have good: "tls_LoadX509KeyPair ?ok ''cert.pem'' ''key.pem'' = (certA, None)"
    by (simp add: demo_def disk_with_def)
  have none: "collectCipherSuites ?ok [] = ([], None)"
    by (simp add: collectCipherSuites_def)
  have bogus: "collectCipherSuites ?ok [''TLS_AES_128_GCM_SHA256'', ''bogus_suite''] =
      ([], Some (UnsupportedCipherSuite ''bogus_suite''))"
    by (simp add: collectCipherSuites_def demo_def suite_def ascii_ToLower_names)
  have missing: "fs_ReadFileOrHTTP ?ok ''missing.pem'' = ([], Some (PlatformError ''no such file''))"
    by (simp add: demo_def)
  have empty: "fs_ReadFileOrHTTP ?ok ''empty.pem'' = ([], None)"
    "AppendCertsFromPEM ?ok [] [] = ([], False)"
    by (simp_all add: demo_def)
  have w: "loads world0 = 0"
    by (simp add: world0_def)
  from GetServerTLSConfig_first_error [where P = "demo disk_broken" and cf = "''cert.pem''"
      and kf = "''key.pem''" and ca = "[]" and cs = "[]" and w = world0]
    bad w
  have 1: "fst (GetServerTLSConfig (demo disk_broken) [] ''cert.pem'' ''key.pem'' [] world0) =
      (None, Some (CannotLoadTLSCert ''cert.pem'' ''key.pem''
         (PlatformError ''failed to find any PEM data'')))"
    "loads (snd (GetServerTLSConfig (demo disk_broken) [] ''cert.pem'' ''key.pem'' [] world0)) = 1"
    by simp_all
  from GetServerTLSConfig_first_error [where P = ?ok and cf = "''cert.pem''" and kf = "''key.pem''"
      and ca = "[]" and cs = "[''TLS_AES_128_GCM_SHA256'', ''bogus_suite'']" and w = world0]
    good bogus
  have 2: "fst (GetServerTLSConfig ?ok [] ''cert.pem'' ''key.pem''
        [''TLS_AES_128_GCM_SHA256'', ''bogus_suite''] world0) =
      (None, Some (CannotUseCipherSuites [''TLS_AES_128_GCM_SHA256'', ''bogus_suite'']
         (UnsupportedCipherSuite ''bogus_suite'')))"
    by simp
  from GetServerTLSConfig_first_error [where P = ?ok and cf = "''cert.pem''" and kf = "''key.pem''"
      and ca = "''missing.pem''" and cs = "[]" and w = world0]
    good none missing
  have 3: "fst (GetServerTLSConfig ?ok ''missing.pem'' ''cert.pem'' ''key.pem'' [] world0) =
      (None, Some (CannotReadCAFile ''missing.pem'' (PlatformError ''no such file'')))"
    by simp
  from GetServerTLSConfig_first_error [where P = ?ok and cf = "''cert.pem''" and kf = "''key.pem''"
      and ca = "''empty.pem''" and cs = "[]" and w = world0]
    good none empty
  have 4: "fst (GetServerTLSConfig ?ok ''empty.pem'' ''cert.pem'' ''key.pem'' [] world0) =
      (None, Some (CannotParseCAFile ''empty.pem'' []))"
    by simp
  from 1 2 3 4 show ?thesis by simp
qed

text \<open>
  Claim C7. Once the certificate pair has loaded and the cipher suites have resolved,
  the CA file path alone decides the client authentication. With the empty path the
  configuration returned has \<^verbatim>\<open>ClientAuth\<close> at \<open>NoClientCert\<close> and no \<^verbatim>\<open>ClientCAs\<close>
  pool. With a non-empty path whose content can be read and holds a certificate, the
  configuration has \<open>RequireAndVerifyClientCert\<close> and the pool parsed from that content;
  when the content cannot be read, or holds no certificate, the builder returns the
  error that names the path and no configuration.
\<close>

theorem GetServerTLSConfig_client_auth:
  assumes l: "tls_LoadX509KeyPair P cf kf = (c0, None)"
    and c: "collectCipherSuites P cs = (ids, None)"
  shows "(ca = [] \<longrightarrow>
            (\<exists>cfg. fst (GetServerTLSConfig P ca cf kf cs w) = (Some cfg, None)
               \<and> ClientAuth cfg = NoClientCert \<and> ClientCAs cfg = None))
       \<and> (\<forall>pem cp. ca \<noteq> [] \<longrightarrow> fs_ReadFileOrHTTP P ca = (pem, None) \<longrightarrow>
            AppendCertsFromPEM P [] pem = (cp, True) \<longrightarrow>
            (\<exists>cfg. fst (GetServerTLSConfig P ca cf kf cs w) = (Some cfg, None)
               \<and> ClientAuth cfg = RequireAndVerifyClientCert \<and> ClientCAs cfg = Some cp))
       \<and> (\<forall>pem e. ca \<noteq> [] \<longrightarrow> fs_ReadFileOrHTTP P ca = (pem, Some e) \<longrightarrow>
            fst (GetServerTLSConfig P ca cf kf cs w) = (None, Some (CannotReadCAFile ca e)))
       \<and> (\<forall>pem cp. ca \<noteq> [] \<longrightarrow> fs_ReadFileOrHTTP P ca = (pem, None) \<longrightarrow>
            AppendCertsFromPEM P [] pem = (cp, False) \<longrightarrow>
            fst (GetServerTLSConfig P ca cf kf cs w) = (None, Some (CannotParseCAFile ca pem)))"
  using l c by (auto simp: GetServerTLSConfig_def Let_def)

theorem GetServerTLSConfig_client_auth_witness:
  "tls_LoadX509KeyPair (demo (disk_with certA)) ''cert.pem'' ''key.pem'' = (certA, None)
   \<and> collectCipherSuites (demo (disk_with certA)) [] = ([], None)
   \<and> map_option ClientAuth
        (fst (fst (GetServerTLSConfig (demo (disk_with certA)) [] ''cert.pem'' ''key.pem'' [] world0)))
      = Some NoClientCert
   \<and> map_option ClientCAs
        (fst (fst (GetServerTLSConfig (demo (disk_with certA)) [] ''cert.pem'' ''key.pem'' [] world0)))
      = Some None
   \<and> map_option ClientAuth
        (fst (fst (GetServerTLSConfig (demo (disk_with certA)) ''ca.pem'' ''cert.pem'' ''key.pem''
           [] world0)))
      = Some RequireAndVerifyClientCert
   \<and> map_option ClientCAs
        (fst (fst (GetServerTLSConfig (demo (disk_with certA)) ''ca.pem'' ''cert.pem'' ''key.pem''
           [] world0)))
      = Some (Some [''root-ca''])
   \<and> fst (GetServerTLSConfig (demo (disk_with certA)) ''nowhere.pem'' ''cert.pem'' ''key.pem''
        [] world0)
      = (None, Some (CannotReadCAFile ''nowhere.pem'' (PlatformError ''no such file'')))
   \<and> fst (GetServerTLSConfig (demo (disk_with certA)) ''empty.pem'' ''cert.pem'' ''key.pem''
        [] world0)
      = (None, Some (CannotParseCAFile ''empty.pem'' []))"
proof -
  let ?ok = "demo (disk_with certA)"
  have good: "tls_LoadX509KeyPair ?ok ''cert.pem'' ''key.pem'' = (certA, None)"
    by (simp add: demo_def disk_with_def)
  have none: "collectCipherSuites ?ok [] = ([], None)"
    by (simp add: collectCipherSuites_def)
  have ca: "fs_ReadFileOrHTTP ?ok ''ca.pem'' = (''PEM:root-ca'', None)"
    "AppendCertsFromPEM ?ok [] ''PEM:root-ca'' = ([''root-ca''], True)"
    by (simp_all add: demo_def)
  have nowhere: "fs_ReadFileOrHTTP ?ok ''nowhere.pem'' = ([], Some (PlatformError ''no such file''))"
    by (simp add: demo_def)
  have empty: "fs_ReadFileOrHTTP ?ok ''empty.pem'' = ([], None)"
    "AppendCertsFromPEM ?ok [] [] = ([], False)"
    by (simp_all add: demo_def)
  from GetServerTLSConfig_client_auth [OF good none, where ca = "[]" and w = world0]
  have 1: "map_option ClientAuth
        (fst (fst (GetServerTLSConfig ?ok [] ''cert.pem'' ''key.pem'' [] world0))) = Some NoClientCert"
    "map_option ClientCAs
        (fst (fst (GetServerTLSConfig ?ok [] ''cert.pem'' ''key.pem'' [] world0))) = Some None"
    by auto
  from GetServerTLSConfig_client_auth [OF good none, where ca = "''ca.pem''" and w = world0] ca
  have 2: "map_option ClientAuth
        (fst (fst (GetServerTLSConfig ?ok ''ca.pem'' ''cert.pem'' ''key.pem'' [] world0)))
      = Some RequireAndVerifyClientCert"
    "map_option ClientCAs
        (fst (fst (GetServerTLSConfig ?ok ''ca.pem'' ''cert.pem'' ''key.pem'' [] world0)))
      = Some (Some [''root-ca''])"
    by auto
  from GetServerTLSConfig_client_auth [OF good none, where ca = "''nowhere.pem''" and w = world0] nowhere
  have 3: "fst (GetServerTLSConfig ?ok ''nowhere.pem'' ''cert.pem'' ''key.pem'' [] world0)
      = (None, Some (CannotReadCAFile ''nowhere.pem'' (PlatformError ''no such file'')))"
    by simp
  from GetServerTLSConfig_client_auth [OF good none, where ca = "''empty.pem''" and w = world0] empty
  have 4: "fst (GetServerTLSConfig ?ok ''empty.pem'' ''cert.pem'' ''key.pem'' [] world0)
      = (None, Some (CannotParseCAFile ''empty.pem'' []))"
    by simp
  from good none 1 2 3 4 show ?thesis by simp
qed

end
